theory Spec2Isabelle
  imports Complex_Main "HOL-Library.Word"
begin

section \<open>Values, types, functions and commands (interpreter/command.go)\<close>

text \<open>
  The Go sources declare \<open>Command\<close> as an interface with one method \<open>Exec(ctx) *Value\<close>
  and give nine implementations built by lowering.  They are one datatype here.  A
  \<open>Value\<close> pairs a \<open>Type\<close> with a dynamically typed payload; the payload shapes that
  the sources build or test for (\<open>int64\<close>, \<open>float64\<close>, \<open>bool\<close>, \<open>string\<close>,
  \<open>Function\<close>) are the constructors of \<open>Payload\<close>.  An \<open>int64\<close> is a 64-bit word, so
  that \<open>+\<close>, \<open>-\<close> and \<open>*\<close> wrap as they do in Go.  No floating-point operation is
  embedded: a \<open>float64\<close> payload is only carried, as a real number.

  The closures that lowering stores in a \<open>BinaryOperatorCommand\<close> are the four of
  \<open>ExpressionToCommand\<close>; \<open>BinaryOp\<close> names them.  \<open>AbstractCommand\<close>, which wraps an
  arbitrary host closure and is never produced by lowering, is not embedded.
\<close>

datatype BinaryOp = OpAdd | OpSubtract | OpMultiply | OpSlash

datatype Type = Type (Type_Name: string) (Type_functions: "(string \<times> Function) list")
  and Parameter = Parameter (Parameter_Name: string) (Parameter_Type: Type)
  and Function = Function (Parameters: "Parameter list") (ReturnType: Type) (Body: Command)
  and Payload =
      IntV "64 word"
    | FloatV real
    | BoolV bool
    | StringV string
    | FunV Function
  and Value = Value (Value_Type: Type) (Value_Value: Payload)
  and Command =
      DefineVarCommand string bool Type Command
    | AssignmentCommand string Command
    | VariableCommand string
    | InvocationCommand Command "Command list"
    | LiteralCommand Value
    | BinaryOperatorCommand Command BinaryOp Command
    | BlockCommand "Command list"
    | ContextCommand Command string
    | IfElseCommand Command Command "Command option"

text \<open>
  Every \<open>panic\<close> of the sources is a value of \<open>error\<close>, named by the error kind of the
  specification that the panic message belongs to.  \<open>NilDereference\<close> and
  \<open>DivideByZero\<close> are the two run-time faults of the Go host that the code can reach
  without a \<open>panic\<close> call of its own: reading a field through a nil \<open>*Value\<close> or
  \<open>*Type\<close>, and \<open>int64\<close> division by zero.
\<close>

datatype error =
    TypeMismatch
  | UndefinedVariable
  | UndefinedMember
  | ImmutableAssignment
  | NotInvokable
  | OperandTypeError
  | ConditionTypeError
  | UnsupportedNode
  | SyntaxError
  | InvocationError
  | StackExhausted
  | NilDereference
  | DivideByZero

section \<open>The type system\<close>

text \<open>
  Modelled from the spec: the declaration of \<open>Type\<close>, its method \<open>Accepts\<close>, the
  well-known types \<open>AnyType\<close>, \<open>IntType\<close>, \<open>FloatType\<close>, \<open>BooleanType\<close>,
  \<open>StringType\<close> and the constructor \<open>FunctionType\<close> are used by command.go but are not
  part of the sources.  The specification gives the rule: Type A accepts Type B iff B is
  nominally the same Type as A, or A is the universal Any Type.  The function tables of
  the well-known types are not described anywhere, so they are empty here; a FunctionType
  is a Type created per function value only so that the function can be carried as a
  typed Value, and the specification fixes neither its name nor a function table.
\<close>

definition AnyType :: Type where
  "AnyType = Type ''Any'' []"

definition IntType :: Type where
  "IntType = Type ''Int'' []"

definition FloatType :: Type where
  "FloatType = Type ''Float'' []"

definition BooleanType :: Type where
  "BooleanType = Type ''Boolean'' []"

definition StringType :: Type where
  "StringType = Type ''String'' []"

definition FunctionType :: "string option \<Rightarrow> Function \<Rightarrow> Type" where
  "FunctionType name f = Type (case name of Some n \<Rightarrow> n | None \<Rightarrow> ''Function'') []"

definition Accepts :: "Type \<Rightarrow> Type \<Rightarrow> bool" where
  "Accepts a b \<longleftrightarrow> Type_Name a = Type_Name b \<or> Type_Name a = Type_Name AnyType"

text \<open>\<open>IntValue\<close> and \<open>FloatValue\<close> are the constructors the tests use.\<close>

definition IntValue :: "64 word \<Rightarrow> Value" where
  "IntValue n = Value IntType (IntV n)"

definition FloatValue :: "real \<Rightarrow> Value" where
  "FloatValue x = Value FloatType (FloatV x)"

section \<open>Contexts\<close>

text \<open>
  Modelled from the spec: the declarations of \<open>Variable\<close> and \<open>Context\<close> and the methods
  \<open>FindVariable\<close>, \<open>DefineVariable\<close> and \<open>FindParameter\<close> are called by command.go but
  are not part of the sources.  The specification describes a Context as a frame holding
  a mapping from variable name to Variable, a mapping from parameter name to Value, a
  receiver binding and an optional parent for lookup fallback; lookups walk upward and
  stop at the first match or the root; a definition goes into the current frame and
  overwrites an earlier one of the same name.

  \<open>FindVariable\<close> returns a \<open>*Variable\<close> that \<open>AssignmentCommand.Exec\<close> writes through
  after it has evaluated the new value, so a Variable is an object with an identity: the
  frames map a name to an address, and the Variables live in a store (\<open>heap\<close>) indexed by
  address.  A state is the store together with the Context that \<open>Exec\<close> was given.
\<close>

record Variable =
  Variable_Name :: string
  Variable_Mutable :: bool
  Variable_Type :: Type
  Variable_Value :: Value

datatype Context =
  Context (variables: "string \<rightharpoonup> nat") (parameters: "string \<rightharpoonup> Value")
    (receiver: "Value option") (parent: "Context option")

record State =
  heap :: "Variable list"
  ctx :: Context

fun FindVariable :: "Context \<Rightarrow> string \<Rightarrow> nat option" where
  "FindVariable (Context vs ps r p) name =
     (case vs name of
        Some a \<Rightarrow> Some a
      | None \<Rightarrow> (case p of None \<Rightarrow> None | Some c \<Rightarrow> FindVariable c name))"

fun FindParameter :: "Context \<Rightarrow> string \<Rightarrow> Value option" where
  "FindParameter (Context vs ps r p) name =
     (case ps name of
        Some v \<Rightarrow> Some v
      | None \<Rightarrow> (case p of None \<Rightarrow> None | Some c \<Rightarrow> FindParameter c name))"

definition DefineVariable :: "string \<Rightarrow> Variable \<Rightarrow> State \<Rightarrow> State" where
  "DefineVariable name v s =
     \<lparr>heap = heap s @ [v],
      ctx = (case ctx s of Context vs ps r p \<Rightarrow>
               Context (vs(name \<mapsto> length (heap s))) ps r p)\<rparr>"

definition NewContext :: Context where
  "NewContext = Context Map.empty Map.empty None None"

definition NewState :: State where
  "NewState = \<lparr>heap = [], ctx = NewContext\<rparr>"

text \<open>The Variable a name resolves to in a state, read through its address.\<close>

definition LookupVariable :: "State \<Rightarrow> string \<Rightarrow> Variable option" where
  "LookupVariable s name =
     (case FindVariable (ctx s) name of
        None \<Rightarrow> None
      | Some a \<Rightarrow> if a < length (heap s) then Some (heap s ! a) else None)"

section \<open>The evaluator (the \<open>Exec\<close> methods of command.go)\<close>

text \<open>
  A result is what \<open>Exec\<close> returned (\<open>Inr\<close>, with \<open>None\<close> for Go's nil) or the panic
  that aborted it (\<open>Inl\<close>), together with the state at that moment.

  \<open>Function.Exec(ctx, receiver, args)\<close> is called by \<open>InvocationCommand.Exec\<close> but is
  not part of the sources.  The evaluator takes it as the parameter \<open>call\<close>, so the
  theorems about \<open>Exec\<close> hold for every implementation of it.

  A Variable is read and written through the address that \<open>FindVariable\<close> returned;
  every address held by a frame was allocated by \<open>DefineVariable\<close>.  The message of the
  TypeMismatch panic of \<open>AssignmentCommand.Exec\<close> is built with \<open>value.String()\<close>,
  which is not part of the sources; it is taken to yield a string for every Value.
\<close>

type_synonym Result = "(error + Value option) \<times> State"

type_synonym Call = "State \<Rightarrow> Function \<Rightarrow> Value option \<Rightarrow> Command list \<Rightarrow> Result"

text \<open>
  The four closures of \<open>ExpressionToCommand\<close>: each asserts that the left payload and
  then the right payload is an \<open>int64\<close> and returns an \<open>IntType\<close> value.  Go's \<open>/\<close> on
  \<open>int64\<close> truncates toward zero, wraps for the one overflowing quotient, and faults on a
  zero divisor.
\<close>

definition int64_quo :: "64 word \<Rightarrow> 64 word \<Rightarrow> 64 word" where
  "int64_quo a b = word_of_int (sgn (sint a) * sgn (sint b) * (\<bar>sint a\<bar> div \<bar>sint b\<bar>))"

definition op :: "BinaryOp \<Rightarrow> Value option \<Rightarrow> Value option \<Rightarrow> error + Value" where
  "op bop lhs rhs =
     (case lhs of
        None \<Rightarrow> Inl NilDereference
      | Some l \<Rightarrow>
          (case Value_Value l of
             IntV lhsInt \<Rightarrow>
               (case rhs of
                  None \<Rightarrow> Inl NilDereference
                | Some r \<Rightarrow>
                    (case Value_Value r of
                       IntV rhsInt \<Rightarrow>
                         (case bop of
                            OpAdd \<Rightarrow> Inr (Value IntType (IntV (lhsInt + rhsInt)))
                          | OpSubtract \<Rightarrow> Inr (Value IntType (IntV (lhsInt - rhsInt)))
                          | OpMultiply \<Rightarrow> Inr (Value IntType (IntV (lhsInt * rhsInt)))
                          | OpSlash \<Rightarrow>
                              if rhsInt = 0 then Inl DivideByZero
                              else Inr (Value IntType (IntV (int64_quo lhsInt rhsInt))))
                     | _ \<Rightarrow> Inl OperandTypeError))
           | _ \<Rightarrow> Inl OperandTypeError))"

fun Exec :: "Call \<Rightarrow> Command \<Rightarrow> State \<Rightarrow> Result"
  and ExecLines :: "Call \<Rightarrow> Command list \<Rightarrow> Value option \<Rightarrow> State \<Rightarrow> Result" where
  "Exec call (DefineVarCommand name mutable ty valueCmd) s =
     (case Exec call valueCmd s of
        (Inl e, s1) \<Rightarrow> (Inl e, s1)
      | (Inr None, s1) \<Rightarrow> (Inl NilDereference, s1)
      | (Inr (Some v), s1) \<Rightarrow>
          if \<not> Accepts ty (Value_Type v) then (Inl TypeMismatch, s1)
          else (Inr None,
                DefineVariable name
                  \<lparr>Variable_Name = name, Variable_Mutable = mutable,
                   Variable_Type = ty, Variable_Value = v\<rparr> s1))"
| "Exec call (AssignmentCommand name valueCmd) s =
     (case FindVariable (ctx s) name of
        None \<Rightarrow> (Inl UndefinedVariable, s)
      | Some a \<Rightarrow>
          if \<not> Variable_Mutable (heap s ! a) then (Inl ImmutableAssignment, s)
          else
            (case Exec call valueCmd s of
               (Inl e, s1) \<Rightarrow> (Inl e, s1)
             | (Inr None, s1) \<Rightarrow> (Inl NilDereference, s1)
             | (Inr (Some v), s1) \<Rightarrow>
                 if \<not> Accepts (Variable_Type (heap s1 ! a)) (Value_Type v)
                 then (Inl TypeMismatch, s1)
                 else (Inr None,
                       s1\<lparr>heap := (heap s1)[a := (heap s1 ! a)\<lparr>Variable_Value := v\<rparr>]\<rparr>)))"
| "Exec call (VariableCommand name) s =
     (case FindVariable (ctx s) name of
        None \<Rightarrow>
          (case FindParameter (ctx s) name of
             None \<Rightarrow> (Inl UndefinedVariable, s)
           | Some param \<Rightarrow> (Inr (Some param), s))
      | Some a \<Rightarrow> (Inr (Some (Variable_Value (heap s ! a))), s))"
| "Exec call (InvocationCommand Invoking args) s =
     (case Exec call Invoking s of
        (Inl e, s1) \<Rightarrow> (Inl e, s1)
      | (Inr None, s1) \<Rightarrow> (Inl NilDereference, s1)
      | (Inr (Some val), s1) \<Rightarrow>
          (case Value_Value val of
             FunV fn \<Rightarrow>
               (case Invoking of
                  ContextCommand rcv variable \<Rightarrow>
                    (case Exec call rcv s1 of
                       (Inl e, s2) \<Rightarrow> (Inl e, s2)
                     | (Inr None, s2) \<Rightarrow> (Inl NilDereference, s2)
                     | (Inr (Some r), s2) \<Rightarrow>
                         (case map_of (Type_functions (Value_Type r)) variable of
                            None \<Rightarrow> (Inl UndefinedMember, s2)
                          | Some function \<Rightarrow>
                              (case Exec call rcv s2 of
                                 (Inl e, s3) \<Rightarrow> (Inl e, s3)
                               | (Inr exec, s3) \<Rightarrow> call s3 function exec args)))
                | _ \<Rightarrow> call s1 fn None args)
           | _ \<Rightarrow> (Inl NotInvokable, s1)))"
| "Exec call (LiteralCommand v) s = (Inr (Some v), s)"
| "Exec call (BinaryOperatorCommand lhsCmd bop rhsCmd) s =
     (case Exec call lhsCmd s of
        (Inl e, s1) \<Rightarrow> (Inl e, s1)
      | (Inr lhs, s1) \<Rightarrow>
          (case Exec call rhsCmd s1 of
             (Inl e, s2) \<Rightarrow> (Inl e, s2)
           | (Inr rhs, s2) \<Rightarrow>
               (case op bop lhs rhs of
                  Inl e \<Rightarrow> (Inl e, s2)
                | Inr v \<Rightarrow> (Inr (Some v), s2))))"
| "Exec call (BlockCommand lines) s = ExecLines call lines None s"
| "Exec call (ContextCommand rcv variable) s =
     (case Exec call rcv s of
        (Inl e, s1) \<Rightarrow> (Inl e, s1)
      | (Inr None, s1) \<Rightarrow> (Inl NilDereference, s1)
      | (Inr (Some r), s1) \<Rightarrow>
          (case map_of (Type_functions (Value_Type r)) variable of
             None \<Rightarrow> (Inl UndefinedMember, s1)
           | Some function \<Rightarrow>
               (Inr (Some (Value (FunctionType (Some variable) function) (FunV function))),
                s1)))"
| "Exec call (IfElseCommand condition ifBranch elseBranch) s =
     (case Exec call condition s of
        (Inl e, s1) \<Rightarrow> (Inl e, s1)
      | (Inr None, s1) \<Rightarrow> (Inl NilDereference, s1)
      | (Inr (Some c), s1) \<Rightarrow>
          (case Value_Value c of
             BoolV asBoolean \<Rightarrow>
               if asBoolean then Exec call ifBranch s1
               else (case elseBranch of
                       Some e \<Rightarrow> Exec call e s1
                     | None \<Rightarrow> (Inr None, s1))
           | _ \<Rightarrow> (Inl ConditionTypeError, s1)))"
| "ExecLines call [] lastv s = (Inr lastv, s)"
| "ExecLines call (line # lines) lastv s =
     (case Exec call line s of
        (Inl e, s1) \<Rightarrow> (Inl e, s1)
      | (Inr v, s1) \<Rightarrow> ExecLines call lines v s1)"

section \<open>Function invocation\<close>

text \<open>
  Modelled from the spec: \<open>Function.Exec\<close> is missing from the sources.  The
  specification describes it: the argument count is checked against the signature (a
  mismatch is a fatal invocation error); each argument is evaluated and bound,
  positionally, to the parameter of the same index in a fresh Context frame; a receiver,
  when present, is the receiver binding of that frame; the frame's parent is the
  function's defining Context, not the caller's; the body is evaluated in the frame and
  its result is the call's result; the declared return Type is never checked.  A
  \<open>Function\<close> is a signature and a body and records no Context, so the defining Context
  of each function is given by the parameter \<open>defining\<close>, as it is in the state of the
  call: a Context is a mutable object, and the frame sees the bindings its parent has
  when the body runs.  The arguments are evaluated in the caller's Context, which is the
  current one again when the call has returned.
  An argument that evaluates to no value leaves its parameter unbound.  The depth of
  nested calls is bounded by the second argument, as the host stack bounds it;
  \<open>StackExhausted\<close> is the fatal resource exhaustion of the specification.
\<close>

fun evalArgs :: "(Command \<Rightarrow> State \<Rightarrow> Result) \<Rightarrow> Command list \<Rightarrow> State
    \<Rightarrow> (error + Value option list) \<times> State" where
  "evalArgs ev [] s = (Inr [], s)"
| "evalArgs ev (a # as) s =
     (case ev a s of
        (Inl e, s1) \<Rightarrow> (Inl e, s1)
      | (Inr v, s1) \<Rightarrow>
          (case evalArgs ev as s1 of
             (Inl e, s2) \<Rightarrow> (Inl e, s2)
           | (Inr vs, s2) \<Rightarrow> (Inr (v # vs), s2)))"

fun bindParameters :: "(string \<rightharpoonup> Value) \<Rightarrow> Parameter list \<Rightarrow> Value option list
    \<Rightarrow> (string \<rightharpoonup> Value)" where
  "bindParameters m (p # ps) (v # vs) = bindParameters (m(Parameter_Name p := v)) ps vs"
| "bindParameters m _ _ = m"

primrec Function_Exec :: "(State \<Rightarrow> Function \<Rightarrow> Context option) \<Rightarrow> nat \<Rightarrow> Call" where
  "Function_Exec defining 0 = (\<lambda>s f rcv args. (Inl StackExhausted, s))"
| "Function_Exec defining (Suc n) = (\<lambda>s f rcv args.
     if length args \<noteq> length (Parameters f) then (Inl InvocationError, s)
     else
       (case evalArgs (Exec (Function_Exec defining n)) args s of
          (Inl e, s1) \<Rightarrow> (Inl e, s1)
        | (Inr vs, s1) \<Rightarrow>
            (case Exec (Function_Exec defining n) (Body f)
                    (s1\<lparr>ctx := Context Map.empty
                                   (bindParameters Map.empty (Parameters f) vs) rcv
                                   (defining s1 f)\<rparr>) of
               (res, s2) \<Rightarrow> (res, s2\<lparr>ctx := ctx s1\<rparr>))))"

text \<open>
  Modelled from the spec: top-level program execution uses one root Context, the frame
  of the chain that has no parent.  It is the defining Context of every function defined
  at top level.
\<close>

fun rootContext :: "Context \<Rightarrow> Context" where
  "rootContext (Context vs ps r p) =
     (case p of None \<Rightarrow> Context vs ps r p | Some c \<Rightarrow> rootContext c)"

definition definedAtRoot :: "State \<Rightarrow> Function \<Rightarrow> Context option" where
  "definedAtRoot s f = Some (rootContext (ctx s))"

section \<open>Lowering (\<open>ToCommand\<close> and \<open>ExpressionToCommand\<close> of command.go)\<close>

text \<open>
  Modelled from the spec: the declarations of the AST (\<open>parser.Stmt\<close>, \<open>parser.Expr\<close>,
  \<open>parser.Type\<close>), of \<open>lexer.TokenType\<close> and of \<open>FromASTType\<close> are not part of the
  sources.  The node kinds and their fields are the ones the type switches of command.go
  name and read; \<open>UnsupportedStmt\<close> and \<open>UnsupportedExpr\<close> stand for every node kind
  that has no case there.  A type annotation is optional in a var-definition, in a
  parameter and as a return type; \<open>FromASTType\<close> resolves an annotation through the
  registry of well-known named Types and returns nil for an absent one, which is the case
  \<open>ToCommand\<close> tests for (\<open>if Type == nil\<close>) before it falls back on \<open>AnyType\<close>.
\<close>

datatype TokenType =
    Add | Subtract | Multiply | Slash | Equals | NotTok
  | LetTok | Mut | IfTok | Else | Arrow | Equal | Dot | Colon
  | LParen | RParen | LBrace | RBrace | LSquare | RSquare | Lesser | Greater
  | Identifier | BinaryInt | OctalInt | HexadecimalInt | DecimalInt | Float
  | CharTok | StringTok | BooleanTrue | BooleanFalse | NewLine | EOF | Illegal

datatype ASTType = ElementaryType string

datatype Stmt =
    VarDefStmt bool string "ASTType option" Expr
  | ExpressionStmt Expr
  | BlockStmt "Stmt list"
  | IfElseStmt Expr Stmt "Stmt option"
  | UnsupportedStmt
  and Expr =
    VariableExpr string
  | InvocationExpr Expr "Expr list"
  | StringLiteralExpr string
  | IntegerLiteralExpr "64 word"
  | FloatLiteralExpr real
  | BooleanLiteralExpr bool
  | BinaryExpr Expr TokenType Expr
  | FuncDefExpr "(string \<times> ASTType option) list" "ASTType option" Stmt
  | ContextExpr Expr string
  | AssignmentExpr string Expr
  | UnsupportedExpr

definition types :: "(string \<times> Type) list" where
  "types = [(''Any'', AnyType), (''Int'', IntType), (''Float'', FloatType),
            (''Boolean'', BooleanType), (''String'', StringType)]"

fun FromASTType :: "ASTType option \<Rightarrow> Type option" where
  "FromASTType None = None"
| "FromASTType (Some (ElementaryType name)) = map_of types name"

text \<open>
  The parameter loop of the \<open>FuncDefExpr\<close> case: \<open>*paramType\<close> is read with no nil
  test, so a nil \<open>paramType\<close> is the host's nil-pointer fault.  In the literal that
  builds the \<open>Function\<close>, Go orders only the calls among the operands, and the
  compiled code makes the call \<open>ToCommand(t.Statement)\<close> before it reads
  \<open>*returnType\<close>: a body that cannot be lowered panics first, and the nil return type
  faults only once the body has been lowered.
\<close>

fun params :: "(string \<times> ASTType option) list \<Rightarrow> error + Parameter list" where
  "params [] = Inr []"
| "params ((name, ty) # rest) =
     (case FromASTType ty of
        None \<Rightarrow> Inl NilDereference
      | Some paramType \<Rightarrow>
          (case params rest of
             Inl e \<Rightarrow> Inl e
           | Inr ps \<Rightarrow> Inr (Parameter name paramType # ps)))"

fun ToCommand :: "Stmt \<Rightarrow> error + Command"
  and ExpressionToCommand :: "Expr \<Rightarrow> error + Command"
  and ToCommands :: "Stmt list \<Rightarrow> error + Command list"
  and ExpressionsToCommands :: "Expr list \<Rightarrow> error + Command list" where
  "ToCommand (VarDefStmt mutable identifier ty valueE) =
     (let Type' = (case FromASTType ty of None \<Rightarrow> AnyType | Some t \<Rightarrow> t) in
      case ExpressionToCommand valueE of
        Inl e \<Rightarrow> Inl e
      | Inr valueExpr \<Rightarrow> Inr (DefineVarCommand identifier mutable Type' valueExpr))"
| "ToCommand (ExpressionStmt e) = ExpressionToCommand e"
| "ToCommand (BlockStmt stmts) =
     (case ToCommands stmts of
        Inl e \<Rightarrow> Inl e
      | Inr commands \<Rightarrow> Inr (BlockCommand commands))"
| "ToCommand (IfElseStmt conditionE mainBranch elseBranchS) =
     (case ExpressionToCommand conditionE of
        Inl e \<Rightarrow> Inl e
      | Inr condition \<Rightarrow>
          (case ToCommand mainBranch of
             Inl e \<Rightarrow> Inl e
           | Inr ifBranch \<Rightarrow>
               (case elseBranchS of
                  None \<Rightarrow> Inr (IfElseCommand condition ifBranch None)
                | Some eb \<Rightarrow>
                    (case ToCommand eb of
                       Inl e \<Rightarrow> Inl e
                     | Inr elseBranch \<Rightarrow>
                         Inr (IfElseCommand condition ifBranch (Some elseBranch))))))"
| "ToCommand UnsupportedStmt = Inl UnsupportedNode"
| "ExpressionToCommand (VariableExpr identifier) = Inr (VariableCommand identifier)"
| "ExpressionToCommand (InvocationExpr invoker args) =
     (case ExpressionToCommand invoker of
        Inl e \<Rightarrow> Inl e
      | Inr fn \<Rightarrow>
          (case ExpressionsToCommands args of
             Inl e \<Rightarrow> Inl e
           | Inr argCmds \<Rightarrow> Inr (InvocationCommand fn argCmds)))"
| "ExpressionToCommand (StringLiteralExpr str) =
     Inr (LiteralCommand (Value StringType (StringV str)))"
| "ExpressionToCommand (IntegerLiteralExpr integer) =
     Inr (LiteralCommand (Value IntType (IntV integer)))"
| "ExpressionToCommand (FloatLiteralExpr float) =
     Inr (LiteralCommand (Value FloatType (FloatV float)))"
| "ExpressionToCommand (BooleanLiteralExpr boolean) =
     Inr (LiteralCommand (Value BooleanType (BoolV boolean)))"
| "ExpressionToCommand (BinaryExpr lhs tok rhs) =
     (case ExpressionToCommand lhs of
        Inl e \<Rightarrow> Inl e
      | Inr lhsCmd \<Rightarrow>
          (case ExpressionToCommand rhs of
             Inl e \<Rightarrow> Inl e
           | Inr rhsCmd \<Rightarrow>
               (case tok of
                  Add \<Rightarrow> Inr (BinaryOperatorCommand lhsCmd OpAdd rhsCmd)
                | Subtract \<Rightarrow> Inr (BinaryOperatorCommand lhsCmd OpSubtract rhsCmd)
                | Multiply \<Rightarrow> Inr (BinaryOperatorCommand lhsCmd OpMultiply rhsCmd)
                | Slash \<Rightarrow> Inr (BinaryOperatorCommand lhsCmd OpSlash rhsCmd)
                | _ \<Rightarrow> Inl UnsupportedNode)))"
| "ExpressionToCommand (FuncDefExpr arguments returnTypeA statement) =
     (case params arguments of
        Inl e \<Rightarrow> Inl e
      | Inr ps \<Rightarrow>
          (case ToCommand statement of
             Inl e \<Rightarrow> Inl e
           | Inr body \<Rightarrow>
               (case FromASTType returnTypeA of
                  None \<Rightarrow> Inl NilDereference
                | Some returnType \<Rightarrow>
                    (let fn = Function ps returnType body in
                     Inr (LiteralCommand (Value (FunctionType None fn) (FunV fn)))))))"
| "ExpressionToCommand (ContextExpr context variable) =
     (case ExpressionToCommand context of
        Inl e \<Rightarrow> Inl e
      | Inr contextCmd \<Rightarrow> Inr (ContextCommand contextCmd variable))"
| "ExpressionToCommand (AssignmentExpr identifier valueE) =
     (case ExpressionToCommand valueE of
        Inl e \<Rightarrow> Inl e
      | Inr valueCmd \<Rightarrow> Inr (AssignmentCommand identifier valueCmd))"
| "ExpressionToCommand UnsupportedExpr = Inl UnsupportedNode"
| "ToCommands [] = Inr []"
| "ToCommands (stmt # stmts) =
     (case ToCommand stmt of
        Inl e \<Rightarrow> Inl e
      | Inr c \<Rightarrow>
          (case ToCommands stmts of
             Inl e \<Rightarrow> Inl e
           | Inr cs \<Rightarrow> Inr (c # cs)))"
| "ExpressionsToCommands [] = Inr []"
| "ExpressionsToCommands (arg # args) =
     (case ExpressionToCommand arg of
        Inl e \<Rightarrow> Inl e
      | Inr c \<Rightarrow>
          (case ExpressionsToCommands args of
             Inl e \<Rightarrow> Inl e
           | Inr cs \<Rightarrow> Inr (c # cs)))"

section \<open>The scanner (lexer/scanner.go)\<close>

text \<open>
  A \<open>Scanner\<close> reads runes from a buffered reader and can put the last one back.  Here
  the reader is the list of characters still to be read, and every reading function
  returns what is left.  \<open>read\<close> yields \<open>eof\<close> when the input is exhausted; the
  sources compare every rune they read with \<open>eof\<close>, so a rune equal to \<open>eof\<close> in the
  input ends a token as the end of input does.  A rune is a \<open>char\<close> here, which covers
  the code points up to U+00FF.  Source positions are not embedded: a token is its kind
  and its text.  scanner.go writes the token kinds in capitals
  (\<open>LET\<close>, \<open>INT\<close>, \<open>EQUAL\<close>), the parser and command.go write \<open>lexer.DecimalInt\<close>,
  \<open>lexer.Add\<close>; they are the one datatype \<open>TokenType\<close>, with \<open>INT\<close> being
  \<open>DecimalInt\<close>.
\<close>

type_synonym Token = "TokenType \<times> string"

text \<open>
  Modelled from the spec: the constant \<open>eof\<close> and the character classes
  \<open>isWhitespace\<close>, \<open>isBracket\<close>, \<open>isStartOfSymbol\<close>, \<open>isOperatorSymbol\<close>,
  \<open>isNumerical\<close> and \<open>isValidIdentifier\<close> are used by scanner.go but are not part of
  the sources, and the specification leaves the tokenizer outside its scope.  The classes
  are read off the branches that consume them: the brackets of \<open>readBracket\<close>, the two
  symbol starts of \<open>readSymbol\<close>, the operator characters, the decimal digits, and
  letters, digits and the underscore for identifiers; blank, tab and line feed are
  whitespace.
\<close>

definition eof :: char where
  "eof = CHR 0x00"

definition isWhitespace :: "char \<Rightarrow> bool" where
  "isWhitespace ch \<longleftrightarrow> ch = CHR '' '' \<or> ch = CHR 0x09 \<or> ch = CHR 0x0A"

definition isBracket :: "char \<Rightarrow> bool" where
  "isBracket ch \<longleftrightarrow> ch \<in> set ''(){}<>''"

definition isStartOfSymbol :: "char \<Rightarrow> bool" where
  "isStartOfSymbol ch \<longleftrightarrow> ch \<in> set ''.=''"

definition isOperatorSymbol :: "char \<Rightarrow> bool" where
  "isOperatorSymbol ch \<longleftrightarrow> ch \<in> set ''+-*/%&|^!''"

definition isNumerical :: "char \<Rightarrow> bool" where
  "isNumerical ch \<longleftrightarrow> 48 \<le> (of_char ch :: nat) \<and> (of_char ch :: nat) \<le> 57"

definition isValidIdentifier :: "char \<Rightarrow> bool" where
  "isValidIdentifier ch \<longleftrightarrow>
     (let n = (of_char ch :: nat) in
      (65 \<le> n \<and> n \<le> 90) \<or> (97 \<le> n \<and> n \<le> 122) \<or> (48 \<le> n \<and> n \<le> 57) \<or> n = 95)"

definition peek :: "string \<Rightarrow> char" where
  "peek cs = (case cs of [] \<Rightarrow> eof | c # _ \<Rightarrow> c)"

fun consumeWhitespace :: "string \<Rightarrow> string" where
  "consumeWhitespace [] = []"
| "consumeWhitespace (ch # cs) =
     (if ch = eof then cs
      else if \<not> isWhitespace ch then ch # cs
      else consumeWhitespace cs)"

text \<open>
  The loop shared by \<open>readIdentifier\<close> and \<open>readOperator\<close>: runes are appended to the
  buffer while they are in the class; the first one that is not is put back.
\<close>

fun readWhile :: "(char \<Rightarrow> bool) \<Rightarrow> string \<Rightarrow> string \<Rightarrow> string \<times> string" where
  "readWhile valid buf [] = (buf, [])"
| "readWhile valid buf (ch # cs) =
     (if ch = eof then (buf, cs)
      else if \<not> valid ch then (buf, ch # cs)
      else readWhile valid (buf @ [ch]) cs)"

definition readIdentifier :: "char \<Rightarrow> string \<Rightarrow> Token \<times> string" where
  "readIdentifier ch cs =
     (case readWhile isValidIdentifier [ch] cs of
        (str, rest) \<Rightarrow>
          if str = ''let'' then ((LetTok, str), rest)
          else if str = ''mut'' then ((Mut, str), rest)
          else ((Identifier, str), rest))"

definition readBracket :: "char \<Rightarrow> string \<Rightarrow> Token \<times> string" where
  "readBracket str cs =
     (if str = CHR ''('' then ((LParen, [str]), cs)
      else if str = CHR '')'' then ((RParen, [str]), cs)
      else if str = CHR ''{'' then ((LBrace, [str]), cs)
      else if str = CHR ''}'' then ((RBrace, [str]), cs)
      else if str = CHR ''<'' then ((Lesser, [str]), cs)
      else if str = CHR ''>'' then ((Greater, [str]), cs)
      else ((Illegal, [str]), cs))"

definition readSymbol :: "char \<Rightarrow> string \<Rightarrow> Token \<times> string" where
  "readSymbol ch cs =
     (if ch = CHR ''.'' then ((Dot, [ch]), cs)
      else if ch = CHR ''='' then
        (if peek cs = CHR ''>'' then ((Arrow, [ch, peek cs]), tl cs)
         else ((Equal, [ch]), cs))
      else ((Illegal, [ch]), cs))"

definition readOperator :: "char \<Rightarrow> string \<Rightarrow> Token \<times> string" where
  "readOperator ch cs =
     (case readWhile isOperatorSymbol [ch] cs of
        (str, rest) \<Rightarrow>
          if str = ''=='' then ((Equals, str), rest)
          else if str = ''+'' then ((Add, str), rest)
          else ((Illegal, str), rest))"

text \<open>
  \<open>readString\<close> is entered after the opening quote has been read.  It appends the next
  rune whatever it is, then reads up to the closing quote, which it consumes.
\<close>

fun readStringLoop :: "string \<Rightarrow> string \<Rightarrow> string \<times> string" where
  "readStringLoop buf [] = (buf, [])"
| "readStringLoop buf (ch # cs) =
     (if ch = eof then (buf, cs)
      else if ch = CHR 0x22 then (buf, cs)
      else readStringLoop (buf @ [ch]) cs)"

definition readString :: "string \<Rightarrow> Token \<times> string" where
  "readString cs =
     (case readStringLoop [peek cs] (tl cs) of
        (str, rest) \<Rightarrow> ((StringTok, str), rest))"

text \<open>
  \<open>unicode.IsNumber\<close> of the Go library, on the runes a \<open>char\<close> can hold (the code
  points up to U+00FF): the decimal digits, the superscripts U+00B2, U+00B3 and U+00B9
  and the fractions U+00BC, U+00BD and U+00BE.
\<close>

definition IsNumber :: "char \<Rightarrow> bool" where
  "IsNumber ch \<longleftrightarrow>
     (let n = (of_char ch :: nat) in
      (48 \<le> n \<and> n \<le> 57) \<or> n \<in> {0xB2, 0xB3, 0xB9, 0xBC, 0xBD, 0xBE})"

text \<open>
  \<open>readNumber\<close> is entered on a rune of the class \<open>isNumerical\<close>; its loop continues
  on a point and on every rune that \<open>unicode.IsNumber\<close> accepts.  It does not put back
  the rune that ends the number: the loop breaks after reading it.
\<close>

fun readNumberLoop :: "TokenType \<Rightarrow> string \<Rightarrow> string \<Rightarrow> Token \<times> string" where
  "readNumberLoop numType buf [] = ((numType, buf), [])"
| "readNumberLoop numType buf (ch # cs) =
     (if ch = eof then ((numType, buf), cs)
      else if ch = CHR ''.'' then readNumberLoop Float (buf @ [ch]) cs
      else if \<not> IsNumber ch then ((numType, buf), cs)
      else readNumberLoop numType (buf @ [ch]) cs)"

definition readNumber :: "char \<Rightarrow> string \<Rightarrow> Token \<times> string" where
  "readNumber ch cs = readNumberLoop DecimalInt [ch] cs"

lemma length_consumeWhitespace: "length (consumeWhitespace cs) \<le> length cs"
  by (induction cs) auto

function Read :: "string \<Rightarrow> Token \<times> string" where
  "Read [] = ((EOF, [eof]), [])"
| "Read (ch # cs) =
     (if ch = eof then ((EOF, [ch]), cs)
      else if isWhitespace ch then Read (consumeWhitespace cs)
      else if isBracket ch then readBracket ch cs
      else if isStartOfSymbol ch then readSymbol ch cs
      else if isOperatorSymbol ch then readOperator ch cs
      else if isNumerical ch then readNumber ch cs
      else if ch = CHR 0x22 then readString cs
      else if isValidIdentifier ch then readIdentifier ch cs
      else ((Illegal, [ch]), cs))"
  by pat_completeness auto
termination
  by (relation "measure length") (auto simp: length_consumeWhitespace le_imp_less_Suc)

lemma length_readWhile: "length (snd (readWhile valid buf cs)) \<le> length cs"
  by (induction cs arbitrary: buf) (auto simp: le_SucI)

lemma length_readNumberLoop: "length (snd (readNumberLoop t buf cs)) \<le> length cs"
  by (induction cs arbitrary: t buf) (auto simp: le_SucI)

lemma length_readStringLoop: "length (snd (readStringLoop buf cs)) \<le> length cs"
  by (induction cs arbitrary: buf) (auto simp: le_SucI)

lemma length_readString: "length (snd (readString cs)) \<le> length cs"
  using length_readStringLoop [of "[peek cs]" "tl cs"]
  by (cases "readStringLoop [peek cs] (tl cs)") (simp add: readString_def)

lemma length_readIdentifier: "length (snd (readIdentifier ch cs)) \<le> length cs"
  using length_readWhile [of isValidIdentifier "[ch]" cs]
  by (cases "readWhile isValidIdentifier [ch] cs") (simp add: readIdentifier_def)

lemma length_readOperator: "length (snd (readOperator ch cs)) \<le> length cs"
  using length_readWhile [of isOperatorSymbol "[ch]" cs]
  by (cases "readWhile isOperatorSymbol [ch] cs") (simp add: readOperator_def)

lemma length_readNumber: "length (snd (readNumber ch cs)) \<le> length cs"
  using length_readNumberLoop [of DecimalInt "[ch]" cs] by (simp add: readNumber_def)

lemma length_readBracket: "length (snd (readBracket ch cs)) \<le> length cs"
  by (simp add: readBracket_def)

lemma length_readSymbol: "length (snd (readSymbol ch cs)) \<le> length cs"
  by (simp add: readSymbol_def)

lemma length_Read_direct:
  "\<not> (ch \<noteq> eof \<and> isWhitespace ch) \<Longrightarrow> length (snd (Read (ch # cs))) \<le> length cs"
  by (auto simp: length_readString length_readIdentifier length_readOperator
      length_readNumber length_readBracket length_readSymbol)

lemma length_Read: "length (snd (Read code)) \<le> length code"
proof (induction code rule: Read.induct)
  case 1
  then show ?case by simp
next
  case (2 ch cs)
  show ?case
  proof (cases "ch \<noteq> eof \<and> isWhitespace ch")
    case True
    then have "length (snd (Read (consumeWhitespace cs))) \<le> length (consumeWhitespace cs)"
      using 2 by simp
    then show ?thesis using True length_consumeWhitespace [of cs] by simp
  next
    case False
    then show ?thesis using length_Read_direct [of ch cs] by simp
  qed
qed

lemma Read_consumes:
  "Read code = ((tok, str), rest) \<Longrightarrow> tok \<noteq> EOF \<Longrightarrow> length rest < length code"
proof (cases code)
  case Nil
  then show "Read code = ((tok, str), rest) \<Longrightarrow> tok \<noteq> EOF \<Longrightarrow> ?thesis" by simp
next
  case (Cons ch cs)
  assume r: "Read code = ((tok, str), rest)" and t: "tok \<noteq> EOF"
  show ?thesis
  proof (cases "ch \<noteq> eof \<and> isWhitespace ch")
    case True
    then have "Read (consumeWhitespace cs) = ((tok, str), rest)" using r Cons by simp
    then have "length rest \<le> length (consumeWhitespace cs)"
      using length_Read [of "consumeWhitespace cs"] by simp
    then show ?thesis using length_consumeWhitespace [of cs] Cons by simp
  next
    case False
    then have "length (snd (Read (ch # cs))) \<le> length cs" by (rule length_Read_direct)
    then show ?thesis using r Cons by simp
  qed
qed

text \<open>
  \<open>lex\<close> collects the tokens up to the first \<open>EOF\<close>, which it does not keep.  It
  returns for every input: each token but \<open>EOF\<close> consumes at least one rune.
\<close>

function lex :: "string \<Rightarrow> Token list" where
  "lex code =
     (case Read code of
        ((tok, str), rest) \<Rightarrow> if tok = EOF then [] else (tok, str) # lex rest)"
  by pat_completeness auto
termination
  by (relation "measure length") (auto dest: Read_consumes [OF sym])

declare lex.simps [simp del]

lemmas lexer_defs = lex.simps eof_def IsNumber_def isWhitespace_def isBracket_def isStartOfSymbol_def
  isOperatorSymbol_def isNumerical_def isValidIdentifier_def readIdentifier_def
  readNumber_def readSymbol_def readBracket_def readOperator_def readString_def peek_def

section \<open>The parser\<close>

text \<open>
  Modelled from the spec: the parser's token tape, statement grammar, \<open>parseExpression\<close>
  and infix parselets are not part of the sources; only the prefix parselets are
  (parser/prefix_parslet.go).  The specification describes precedence climbing:
  \<open>parseExpression(minPrecedence)\<close> consumes one prefix rule to obtain a left operand,
  then consumes an infix rule for the current token while that token's precedence
  exceeds \<open>minPrecedence\<close>; a var-definition is \<open>let\<close> or \<open>let mut\<close>, a name, an
  optional type annotation, \<open>=\<close> and an expression; any other statement here is an
  expression statement; line-break tokens between statements are skipped; an unexpected
  token is a SyntaxError that aborts the parse.

  The model covers the fragment of var-definitions and expression statements whose
  expressions are identifiers, integer, boolean and string literals and the binary
  operators \<open>+ - * /\<close>, with the prefix rules \<open>parseIdentifier\<close>, \<open>parseInteger\<close>,
  \<open>parseBoolean\<close> and \<open>parseString\<close> of the sources.  A result of \<open>None\<close> says that
  the tokens leave this fragment (another registered prefix parselet, an invocation, a
  member access, an assignment), or that the bound on the nesting depth, twice the
  number of tokens, was reached; it says nothing about the program.
\<close>

type_synonym 'a parse = "(error + 'a \<times> Token list) option"

fun baseOf :: "TokenType \<Rightarrow> int" where
  "baseOf HexadecimalInt = 16"
| "baseOf DecimalInt = 10"
| "baseOf OctalInt = 8"
| "baseOf BinaryInt = 2"
| "baseOf _ = - 1"

text \<open>
  \<open>strconv.ParseInt(s, base, 64)\<close> of the Go library, for a base from 2 to 36: an
  optional sign, then at least one digit of the base; a digit outside the base and a
  value outside the \<open>int64\<close> range are errors.
\<close>

definition digitValue :: "char \<Rightarrow> nat option" where
  "digitValue ch =
     (let n = (of_char ch :: nat) in
      if 48 \<le> n \<and> n \<le> 57 then Some (n - 48)
      else if 97 \<le> n \<and> n \<le> 122 then Some (n - 87)
      else if 65 \<le> n \<and> n \<le> 90 then Some (n - 55)
      else None)"

fun digitsValue :: "nat \<Rightarrow> nat \<Rightarrow> string \<Rightarrow> nat option" where
  "digitsValue base acc [] = Some acc"
| "digitsValue base acc (ch # cs) =
     (case digitValue ch of
        None \<Rightarrow> None
      | Some d \<Rightarrow> if d < base then digitsValue base (acc * base + d) cs else None)"

definition ParseInt :: "string \<Rightarrow> int \<Rightarrow> 64 word option" where
  "ParseInt s base =
     (let (neg, digits) =
            (case s of
               ch # cs \<Rightarrow>
                 if ch = CHR ''-'' then (True, cs)
                 else if ch = CHR ''+'' then (False, cs)
                 else (False, s)
             | [] \<Rightarrow> (False, s))
      in if digits = [] \<or> base < 2 \<or> 36 < base then None
         else
           (case digitsValue (nat base) 0 digits of
              None \<Rightarrow> None
            | Some n \<Rightarrow>
                if neg then (if n \<le> 2 ^ 63 then Some (word_of_int (- int n)) else None)
                else (if n < 2 ^ 63 then Some (word_of_int (int n)) else None)))"

text \<open>
  The prefix rules.  The token kinds of the third branch have a prefix parselet in
  \<open>initPrefixParselets\<close> that is outside the fragment; every other kind has none.
\<close>

fun parsePrefix :: "Token list \<Rightarrow> Expr parse" where
  "parsePrefix [] = Some (Inl SyntaxError)"
| "parsePrefix ((tt, text) # rest) =
     (if tt = Identifier then Some (Inr (VariableExpr text, rest))
      else if tt \<in> {BinaryInt, OctalInt, HexadecimalInt, DecimalInt} then
        (if baseOf tt < 2 then Some (Inl SyntaxError)
         else
           (case ParseInt text (baseOf tt) of
              None \<Rightarrow> Some (Inl SyntaxError)
            | Some v \<Rightarrow> Some (Inr (IntegerLiteralExpr v, rest))))
      else if tt = BooleanTrue \<or> tt = BooleanFalse then
        Some (Inr (BooleanLiteralExpr (tt = BooleanTrue), rest))
      else if tt = StringTok then Some (Inr (StringLiteralExpr text, rest))
      else if tt \<in> {LSquare, LBrace, Float, CharTok, LParen, Subtract, NotTok, IfTok} then None
      else Some (Inl SyntaxError))"

definition Lowest :: nat where
  "Lowest = 0"

fun precedence :: "TokenType \<Rightarrow> nat" where
  "precedence Add = 1"
| "precedence Subtract = 1"
| "precedence Multiply = 2"
| "precedence Slash = 2"
| "precedence _ = Lowest"

fun parseExpression :: "nat \<Rightarrow> nat \<Rightarrow> Token list \<Rightarrow> Expr parse"
  and parseInfix :: "nat \<Rightarrow> nat \<Rightarrow> Expr \<Rightarrow> Token list \<Rightarrow> Expr parse" where
  "parseExpression 0 minPrecedence toks = None"
| "parseExpression (Suc n) minPrecedence toks =
     (case parsePrefix toks of
        None \<Rightarrow> None
      | Some (Inl e) \<Rightarrow> Some (Inl e)
      | Some (Inr (left, rest)) \<Rightarrow> parseInfix n minPrecedence left rest)"
| "parseInfix 0 minPrecedence left toks = None"
| "parseInfix (Suc n) minPrecedence left [] = Some (Inr (left, []))"
| "parseInfix (Suc n) minPrecedence left ((tt, text) # rest) =
     (if tt \<in> {LParen, Dot, Equal} then None
      else if minPrecedence < precedence tt then
        (case parseExpression n (precedence tt) rest of
           None \<Rightarrow> None
         | Some (Inl e) \<Rightarrow> Some (Inl e)
         | Some (Inr (right, rest')) \<Rightarrow>
             parseInfix n minPrecedence (BinaryExpr left tt right) rest')
      else Some (Inr (left, (tt, text) # rest)))"

definition parseVarDef :: "nat \<Rightarrow> bool \<Rightarrow> string \<Rightarrow> ASTType option \<Rightarrow> Token list \<Rightarrow> Stmt parse"
  where
  "parseVarDef n mutable name ty toks =
     (case toks of
        (tt, text) # rest \<Rightarrow>
          if tt = Equal then
            (case parseExpression n Lowest rest of
               None \<Rightarrow> None
             | Some (Inl e) \<Rightarrow> Some (Inl e)
             | Some (Inr (v, rest')) \<Rightarrow> Some (Inr (VarDefStmt mutable name ty v, rest')))
          else Some (Inl SyntaxError)
      | [] \<Rightarrow> Some (Inl SyntaxError))"

definition parseVarDefName :: "nat \<Rightarrow> bool \<Rightarrow> Token list \<Rightarrow> Stmt parse" where
  "parseVarDefName n mutable toks =
     (case toks of
        (tt, name) # rest \<Rightarrow>
          if tt = Identifier then
            (case rest of
               (tc, _) # (ti, tyName) # rest' \<Rightarrow>
                 if tc = Colon then
                   (if ti = Identifier
                    then parseVarDef n mutable name (Some (ElementaryType tyName)) rest'
                    else Some (Inl SyntaxError))
                 else parseVarDef n mutable name None rest
             | _ \<Rightarrow> parseVarDef n mutable name None rest)
          else Some (Inl SyntaxError)
      | [] \<Rightarrow> Some (Inl SyntaxError))"

definition parseStatement :: "nat \<Rightarrow> Token list \<Rightarrow> Stmt parse" where
  "parseStatement n toks =
     (case toks of
        (tt, text) # rest \<Rightarrow>
          if tt = LetTok then
            (case rest of
               (tm, _) # rest' \<Rightarrow>
                 if tm = Mut then parseVarDefName n True rest'
                 else parseVarDefName n False rest
             | [] \<Rightarrow> Some (Inl SyntaxError))
          else
            (case parseExpression n Lowest toks of
               None \<Rightarrow> None
             | Some (Inl e) \<Rightarrow> Some (Inl e)
             | Some (Inr (e, rest')) \<Rightarrow> Some (Inr (ExpressionStmt e, rest')))
      | [] \<Rightarrow> Some (Inl SyntaxError))"

definition skipLineBreaks :: "Token list \<Rightarrow> Token list" where
  "skipLineBreaks toks = dropWhile (\<lambda>t. fst t = NewLine) toks"

fun parseProgram :: "nat \<Rightarrow> Token list \<Rightarrow> (error + Stmt list) option" where
  "parseProgram 0 toks = (if skipLineBreaks toks = [] then Some (Inr []) else None)"
| "parseProgram (Suc n) toks =
     (if skipLineBreaks toks = [] then Some (Inr [])
      else
        (case parseStatement n (skipLineBreaks toks) of
           None \<Rightarrow> None
         | Some (Inl e) \<Rightarrow> Some (Inl e)
         | Some (Inr (stmt, rest)) \<Rightarrow>
             (case parseProgram n rest of
                None \<Rightarrow> None
              | Some (Inl e) \<Rightarrow> Some (Inl e)
              | Some (Inr stmts) \<Rightarrow> Some (Inr (stmt # stmts)))))"

definition parse :: "Token list \<Rightarrow> (error + Stmt list) option" where
  "parse toks = parseProgram (2 * length toks + 2) toks"

section \<open>Batch execution\<close>

text \<open>
  Modelled from the spec: the batch driver \<open>base.Execute(file, code, debug)\<close>, which the
  tests call, is not part of the sources.  The specification describes it: the source
  text is tokenized and parsed into a sequence of top-level statements; each statement
  is lowered and evaluated, in order, against one shared root Context; the results, each
  possibly absent, are returned in program order; a parse or evaluation failure aborts
  the run, with no partial result.  The source-file identity and the debug flag do not
  reach the core and are left out.  \<open>Function.Exec\<close> is the parameter \<open>call\<close>, as in
  \<open>Exec\<close>.
\<close>

fun ExecuteStatements :: "Call \<Rightarrow> Stmt list \<Rightarrow> State \<Rightarrow> error + Value option list" where
  "ExecuteStatements call [] s = Inr []"
| "ExecuteStatements call (stmt # stmts) s =
     (case ToCommand stmt of
        Inl e \<Rightarrow> Inl e
      | Inr command \<Rightarrow>
          (case Exec call command s of
             (Inl e, s1) \<Rightarrow> Inl e
           | (Inr v, s1) \<Rightarrow>
               (case ExecuteStatements call stmts s1 of
                  Inl e \<Rightarrow> Inl e
                | Inr vs \<Rightarrow> Inr (v # vs))))"

definition Execute :: "Call \<Rightarrow> string \<Rightarrow> (error + Value option list) option" where
  "Execute call code =
     (case parse (lex code) of
        None \<Rightarrow> None
      | Some (Inl e) \<Rightarrow> Some (Inl e)
      | Some (Inr stmts) \<Rightarrow> Some (ExecuteStatements call stmts NewState))"

definition source :: string where
  "source = ''let a = 3'' @ [CHR 0x0A] @ ''a''"

definition testSource :: string where
  "testSource = ''let a = 3'' @ [CHR 0x0A, CHR 0x09] @ ''a''"

section \<open>Example states and commands\<close>

text \<open>
  A state with two frames.  The current frame holds the mutable \<open>Int\<close> variable \<open>b\<close> and
  the parameters \<open>p\<close> and \<open>a\<close>; its parent holds the immutable variable \<open>a\<close> and the
  parameter \<open>q\<close>, so that the name \<open>a\<close> is bound as a parameter in the current frame
  and as a variable in the enclosing one.
\<close>

definition exampleState :: State where
  "exampleState =
     \<lparr>heap = [\<lparr>Variable_Name = ''a'', Variable_Mutable = False,
                Variable_Type = AnyType, Variable_Value = IntValue 1\<rparr>,
              \<lparr>Variable_Name = ''b'', Variable_Mutable = True,
                Variable_Type = IntType, Variable_Value = IntValue 1\<rparr>],
      ctx = Context [''b'' \<mapsto> 1] [''p'' \<mapsto> IntValue 9, ''a'' \<mapsto> IntValue 7] None
              (Some (Context [''a'' \<mapsto> 0] [''q'' \<mapsto> IntValue 8] None None))\<rparr>"

text \<open>
  A Type whose function table registers the member \<open>f\<close>, a receiver expression that
  increments \<open>b\<close> each time it is evaluated, and the state in which the value of a
  member access has been stored in the variable \<open>m\<close>.
\<close>

definition memberFunction :: Function where
  "memberFunction = Function [] AnyType (VariableCommand ''b'')"

definition memberType :: Type where
  "memberType = Type ''Counter'' [(''f'', memberFunction)]"

definition countingReceiver :: Command where
  "countingReceiver =
     BlockCommand
       [AssignmentCommand ''b''
          (BinaryOperatorCommand (VariableCommand ''b'') OpAdd (LiteralCommand (IntValue 1))),
        LiteralCommand (Value memberType (StringV ''receiver''))]"

definition storedState :: State where
  "storedState =
     \<lparr>heap = [\<lparr>Variable_Name = ''m'', Variable_Mutable = False, Variable_Type = AnyType,
                Variable_Value =
                  Value (FunctionType (Some ''f'') memberFunction) (FunV memberFunction)\<rparr>],
      ctx = Context [''m'' \<mapsto> 0] Map.empty None None\<rparr>"

definition definedState :: State where
  "definedState =
     \<lparr>heap = [\<lparr>Variable_Name = ''d'', Variable_Mutable = False, Variable_Type = AnyType,
                Variable_Value = IntValue 3\<rparr>],
      ctx = Context [''d'' \<mapsto> 0] Map.empty None None\<rparr>"

definition ifWithoutElse :: Command where
  "ifWithoutElse =
     IfElseCommand (LiteralCommand (Value BooleanType (BoolV False)))
       (LiteralCommand (IntValue 1)) None"

lemmas example_defs = exampleState_def IntValue_def FloatValue_def Accepts_def
  AnyType_def IntType_def FloatType_def BooleanType_def StringType_def
  memberFunction_def memberType_def countingReceiver_def storedState_def ifWithoutElse_def

section \<open>Host integer division\<close>








section \<open>A definition followed by a read\<close>

text \<open>
  For every integer literal \<open>n\<close> and every name, an unannotated var-definition of the
  name by \<open>n\<close> followed by a reference to the name, run as a batch from the root
  Context, yields no value and then \<open>Int(n)\<close>.
\<close>

lemma ExecuteStatements_define_then_read:
  "ExecuteStatements call
     [VarDefStmt mutable name None (IntegerLiteralExpr n), ExpressionStmt (VariableExpr name)]
     NewState = Inr [None, Some (IntValue n)]"
  by (simp add: NewState_def NewContext_def DefineVariable_def IntValue_def Accepts_def
      AnyType_def IntType_def)

section \<open>The claims\<close>

text \<open>
  C1.  Batch execution of the two-statement source \<open>let a = 3\<close>, line feed, \<open>a\<close> yields
  exactly the results none and \<open>Int(3)\<close>, in this order: the var-definition produces no
  value, and the reference to \<open>a\<close> that follows produces the Int value 3.  The same holds
  for the source of \<open>TestSimpleVariableDeclaration\<close>, where a tab follows the line feed.
  No function is invoked, so the result does not depend on \<open>Function.Exec\<close>.
\<close>

theorem Execute_simple_variable_declaration:
  "Execute call source = Some (Inr [None, Some (IntValue 3)])
   \<and> Execute call testSource = Some (Inr [None, Some (IntValue 3)])"
proof -
  have toks: "lex source = [(LetTok, ''let''), (Identifier, ''a''), (Equal, ''=''),
      (DecimalInt, ''3''), (Identifier, ''a'')]"
    by (simp add: source_def lexer_defs)
  have toks': "lex testSource = lex source"
    by (simp add: source_def testSource_def lexer_defs)
  have int3: "ParseInt ''3'' 10 = Some 3"
    by (simp add: ParseInt_def digitValue_def)
  have stmts: "parse (lex source) =
      Some (Inr [VarDefStmt False ''a'' None (IntegerLiteralExpr 3),
                 ExpressionStmt (VariableExpr ''a'')])"
    unfolding toks parse_def
    by (simp add: eval_nat_numeral parseStatement_def parseVarDefName_def parseVarDef_def
        skipLineBreaks_def Lowest_def int3)
  have run: "ExecuteStatements call
      [VarDefStmt False ''a'' None (IntegerLiteralExpr 3), ExpressionStmt (VariableExpr ''a'')]
      NewState = Inr [None, Some (IntValue 3)]"
    by (rule ExecuteStatements_define_then_read)
  show ?thesis
    by (simp only: Execute_def toks' stmts run option.case sum.case simp_thms)
qed

text \<open>
  C2 (code defect).  The specification has an Invocation whose invoked expression is a
  MemberAccess evaluate the receiver sub-expression exactly once, look the member up in
  the receiver's Type and invoke it with the receiver bound.  \<open>InvocationCommand.Exec\<close>
  first evaluates the invoked \<open>ContextCommand\<close> (which evaluates the receiver), then
  evaluates the receiver again for the lookup, and a third time for the value it binds.
  With a receiver that increments \<open>b\<close> on every evaluation, starting from \<open>b = 1\<close>, the
  member function is called in a state where \<open>b = 4\<close>, whatever \<open>Function.Exec\<close> does.
\<close>

theorem receiver_evaluated_three_times:
  "Exec call (InvocationCommand (ContextCommand countingReceiver ''f'') []) exampleState =
     call (exampleState\<lparr>heap := (heap exampleState)
             [1 := (heap exampleState ! 1)\<lparr>Variable_Value := IntValue 4\<rparr>]\<rparr>)
       memberFunction (Some (Value memberType (StringV ''receiver''))) []"
  by (simp add: example_defs op_def)

text \<open>
  C3 (code defect).  The specification resolves an absent type annotation of a
  var-definition or of a function-literal parameter to \<open>Any\<close>.  \<open>ToCommand\<close> does so
  for a var-definition, behind its nil test.  The \<open>FuncDefExpr\<close> case of
  \<open>ExpressionToCommand\<close> has no such test: it dereferences the nil result for an
  unannotated parameter, and for an absent return type, and lowering stops with the
  host's nil-pointer fault.  A fully annotated function literal is lowered.
\<close>

theorem lowering_unannotated:
  "ToCommand (VarDefStmt False ''a'' None (IntegerLiteralExpr 3))
     = Inr (DefineVarCommand ''a'' False AnyType (LiteralCommand (IntValue 3)))
   \<and> ExpressionToCommand
       (FuncDefExpr [(''x'', None)] (Some (ElementaryType ''Int''))
          (ExpressionStmt (VariableExpr ''x''))) = Inl NilDereference
   \<and> ExpressionToCommand
       (FuncDefExpr [(''x'', Some (ElementaryType ''Int''))] None
          (ExpressionStmt (VariableExpr ''x''))) = Inl NilDereference
   \<and> ExpressionToCommand
       (FuncDefExpr [(''x'', Some (ElementaryType ''Int''))] (Some (ElementaryType ''Int''))
          (ExpressionStmt (VariableExpr ''x'')))
     = Inr (LiteralCommand
         (Value (FunctionType None
                   (Function [Parameter ''x'' IntType] IntType (VariableCommand ''x'')))
            (FunV (Function [Parameter ''x'' IntType] IntType (VariableCommand ''x'')))))"
  by (simp add: types_def IntValue_def Let_def)

text \<open>
  C4.  An Assign command checks in this order: the target is resolved by upward lookup
  and an unresolved name fails with UndefinedVariable; an immutable target fails with
  ImmutableAssignment; in both cases the state is untouched and the result does not
  depend on the value expression, which is not evaluated.  Only then is the new value
  evaluated; a value whose Type the Variable's declared Type does not accept fails with
  TypeMismatch; otherwise the Variable's Value is replaced in place, at the address
  found by the lookup, and the command produces no value.
\<close>

theorem AssignmentCommand_checks_in_order:
  "(FindVariable (ctx s) name = None \<longrightarrow>
      Exec call (AssignmentCommand name valueCmd) s = (Inl UndefinedVariable, s))
   \<and> (FindVariable (ctx s) name = Some a \<and> \<not> Variable_Mutable (heap s ! a) \<longrightarrow>
      Exec call (AssignmentCommand name valueCmd) s = (Inl ImmutableAssignment, s))
   \<and> (FindVariable (ctx s) name = Some a \<and> Variable_Mutable (heap s ! a)
        \<and> Exec call valueCmd s = (Inr (Some v), s1)
        \<and> \<not> Accepts (Variable_Type (heap s1 ! a)) (Value_Type v) \<longrightarrow>
      Exec call (AssignmentCommand name valueCmd) s = (Inl TypeMismatch, s1))
   \<and> (FindVariable (ctx s) name = Some a \<and> Variable_Mutable (heap s ! a)
        \<and> Exec call valueCmd s = (Inr (Some v), s1)
        \<and> Accepts (Variable_Type (heap s1 ! a)) (Value_Type v) \<longrightarrow>
      Exec call (AssignmentCommand name valueCmd) s =
        (Inr None, s1\<lparr>heap := (heap s1)[a := (heap s1 ! a)\<lparr>Variable_Value := v\<rparr>]\<rparr>))"
  by simp

theorem AssignmentCommand_checks_in_order_witness:
  "(FindVariable (ctx exampleState) ''z'' = None
    \<and> Exec (Function_Exec definedAtRoot 0) (AssignmentCommand ''z'' countingReceiver)
         exampleState = (Inl UndefinedVariable, exampleState))
   \<and> (FindVariable (ctx exampleState) ''a'' = Some 0
      \<and> \<not> Variable_Mutable (heap exampleState ! 0)
      \<and> Exec (Function_Exec definedAtRoot 0) (AssignmentCommand ''a'' countingReceiver)
           exampleState = (Inl ImmutableAssignment, exampleState))
   \<and> (FindVariable (ctx exampleState) ''b'' = Some 1
      \<and> Variable_Mutable (heap exampleState ! 1)
      \<and> Exec (Function_Exec definedAtRoot 0) (LiteralCommand (FloatValue 2.5)) exampleState
          = (Inr (Some (FloatValue 2.5)), exampleState)
      \<and> \<not> Accepts (Variable_Type (heap exampleState ! 1)) (Value_Type (FloatValue 2.5))
      \<and> Exec (Function_Exec definedAtRoot 0) (AssignmentCommand ''b'' (LiteralCommand (FloatValue 2.5)))
           exampleState = (Inl TypeMismatch, exampleState))
   \<and> (Accepts (Variable_Type (heap exampleState ! 1)) (Value_Type (IntValue 2))
      \<and> Exec (Function_Exec definedAtRoot 0) (AssignmentCommand ''b'' (LiteralCommand (IntValue 2)))
           exampleState
          = (Inr None,
             exampleState\<lparr>heap := (heap exampleState)
                [1 := (heap exampleState ! 1)\<lparr>Variable_Value := IntValue 2\<rparr>]\<rparr>))"
  using
    AssignmentCommand_checks_in_order [of exampleState "''z''" "Function_Exec definedAtRoot 0"
      countingReceiver]
    AssignmentCommand_checks_in_order [of exampleState "''a''" "Function_Exec definedAtRoot 0"
      countingReceiver 0]
    AssignmentCommand_checks_in_order [of exampleState "''b''" "Function_Exec definedAtRoot 0"
      "LiteralCommand (FloatValue 2.5)" 1 "FloatValue 2.5" exampleState]
    AssignmentCommand_checks_in_order [of exampleState "''b''" "Function_Exec definedAtRoot 0"
      "LiteralCommand (IntValue 2)" 1 "IntValue 2" exampleState]
  by (simp add: example_defs)

text \<open>
  C5.  A DefineVar command whose declared Type does not accept the Type of the evaluated
  value fails with TypeMismatch, and the state it fails in is the state the evaluation of
  the value left: the command itself has created no Variable in any frame.  When the
  Type accepts the value, a new Variable with the command's name, mutability and Type is
  created in the current frame (the other parts of the frame and its parent are as
  before), the name resolves to it, and the command produces no value.
\<close>

theorem DefineVarCommand_type_check:
  "(Exec call valueCmd s = (Inr (Some v), s1) \<and> \<not> Accepts ty (Value_Type v) \<longrightarrow>
      Exec call (DefineVarCommand name mutable ty valueCmd) s = (Inl TypeMismatch, s1))
   \<and> (Exec call valueCmd s = (Inr (Some v), s1) \<and> Accepts ty (Value_Type v) \<longrightarrow>
      (\<exists>s2. Exec call (DefineVarCommand name mutable ty valueCmd) s = (Inr None, s2)
         \<and> heap s2 = heap s1 @ [\<lparr>Variable_Name = name, Variable_Mutable = mutable,
                                   Variable_Type = ty, Variable_Value = v\<rparr>]
         \<and> variables (ctx s2) = (variables (ctx s1))(name \<mapsto> length (heap s1))
         \<and> parameters (ctx s2) = parameters (ctx s1)
         \<and> receiver (ctx s2) = receiver (ctx s1)
         \<and> parent (ctx s2) = parent (ctx s1)
         \<and> LookupVariable s2 name =
             Some \<lparr>Variable_Name = name, Variable_Mutable = mutable,
                   Variable_Type = ty, Variable_Value = v\<rparr>))"
  by (cases "ctx s1") (simp add: DefineVariable_def LookupVariable_def)

theorem DefineVarCommand_type_check_witness:
  "(ToCommand (VarDefStmt False ''a'' (Some (ElementaryType ''Int'')) (FloatLiteralExpr 3.5))
      = Inr (DefineVarCommand ''a'' False IntType (LiteralCommand (FloatValue 3.5)))
    \<and> Exec (Function_Exec definedAtRoot 0) (LiteralCommand (FloatValue 3.5)) NewState
        = (Inr (Some (FloatValue 3.5)), NewState)
    \<and> \<not> Accepts IntType (Value_Type (FloatValue 3.5))
    \<and> Exec (Function_Exec definedAtRoot 0)
         (DefineVarCommand ''a'' False IntType (LiteralCommand (FloatValue 3.5))) NewState
        = (Inl TypeMismatch, NewState)
    \<and> LookupVariable NewState ''a'' = None)
   \<and> (Accepts IntType (Value_Type (IntValue 3))
      \<and> (\<exists>s2. Exec (Function_Exec definedAtRoot 0)
                (DefineVarCommand ''a'' False IntType (LiteralCommand (IntValue 3))) NewState
              = (Inr None, s2)
            \<and> LookupVariable s2 ''a'' =
                Some \<lparr>Variable_Name = ''a'', Variable_Mutable = False,
                      Variable_Type = IntType, Variable_Value = IntValue 3\<rparr>))"
  using
    DefineVarCommand_type_check [of "Function_Exec definedAtRoot 0" "LiteralCommand (FloatValue 3.5)"
      NewState "FloatValue 3.5" NewState IntType "''a''" False]
    DefineVarCommand_type_check [of "Function_Exec definedAtRoot 0" "LiteralCommand (IntValue 3)"
      NewState "IntValue 3" NewState IntType "''a''" False]
  by (simp add: example_defs NewState_def NewContext_def LookupVariable_def types_def)




text \<open>
  C7, as stated, fails for a condition that yields no value.  An assignment used as the
  condition yields none; \<open>IfElseCommand.Exec\<close> reads \<open>condition.Value\<close> with no nil
  test, and the command stops with the host's nil-pointer fault, not with
  ConditionTypeError.
\<close>

theorem valueless_condition_counterexample:
  "ToCommand (IfElseStmt (AssignmentExpr ''b'' (IntegerLiteralExpr 2))
                (ExpressionStmt (IntegerLiteralExpr 1)) None)
     = Inr (IfElseCommand (AssignmentCommand ''b'' (LiteralCommand (IntValue 2)))
              (LiteralCommand (IntValue 1)) None)
   \<and> Exec (Function_Exec definedAtRoot 0)
       (IfElseCommand (AssignmentCommand ''b'' (LiteralCommand (IntValue 2)))
          (LiteralCommand (IntValue 1)) None) exampleState
     = (Inl NilDereference,
        exampleState\<lparr>heap := (heap exampleState)
           [1 := (heap exampleState ! 1)\<lparr>Variable_Value := IntValue 2\<rparr>]\<rparr>)
   \<and> fst (Exec (Function_Exec definedAtRoot 0)
       (IfElseCommand (AssignmentCommand ''b'' (LiteralCommand (IntValue 2)))
          (LiteralCommand (IntValue 1)) None) exampleState) \<noteq> Inl ConditionTypeError"
  by (simp add: example_defs)

text \<open>
  C7 (amended).  An IfElse command evaluates its condition; a failure of the condition
  is the command's failure.  When the condition yields a Value, its payload must be
  boolean-tagged, else the command fails with ConditionTypeError; when the condition
  yields no value, the command stops with the host's nil-pointer fault.  On a true
  condition the command is the if-branch, evaluated in the state the condition left,
  whatever the else branch is; on a false condition it is the else branch when there is
  one, and otherwise it produces no value.
\<close>

theorem IfElseCommand_branches:
  "(Exec call condition s = (Inl err, s1) \<longrightarrow>
      Exec call (IfElseCommand condition ifBranch elseBranch) s = (Inl err, s1))
   \<and> (Exec call condition s = (Inr None, s1) \<longrightarrow>
      Exec call (IfElseCommand condition ifBranch elseBranch) s = (Inl NilDereference, s1))
   \<and> (Exec call condition s = (Inr (Some c), s1) \<and> (\<forall>b. Value_Value c \<noteq> BoolV b) \<longrightarrow>
      Exec call (IfElseCommand condition ifBranch elseBranch) s = (Inl ConditionTypeError, s1))
   \<and> (Exec call condition s = (Inr (Some c), s1) \<and> Value_Value c = BoolV True \<longrightarrow>
      Exec call (IfElseCommand condition ifBranch elseBranch) s = Exec call ifBranch s1)
   \<and> (Exec call condition s = (Inr (Some c), s1) \<and> Value_Value c = BoolV False \<longrightarrow>
      Exec call (IfElseCommand condition ifBranch (Some e)) s = Exec call e s1)
   \<and> (Exec call condition s = (Inr (Some c), s1) \<and> Value_Value c = BoolV False \<longrightarrow>
      Exec call (IfElseCommand condition ifBranch None) s = (Inr None, s1))"
  by (cases "Value_Value c") auto

theorem IfElseCommand_branches_witness:
  "(Exec (Function_Exec definedAtRoot 0) (VariableCommand ''nowhere'') NewState
      = (Inl UndefinedVariable, NewState)
    \<and> Exec (Function_Exec definedAtRoot 0)
         (IfElseCommand (VariableCommand ''nowhere'') (LiteralCommand (IntValue 1)) None)
         NewState = (Inl UndefinedVariable, NewState))
   \<and> (Exec (Function_Exec definedAtRoot 0) ifWithoutElse NewState = (Inr None, NewState)
      \<and> Exec (Function_Exec definedAtRoot 0)
           (IfElseCommand ifWithoutElse (LiteralCommand (IntValue 1)) None)
           NewState = (Inl NilDereference, NewState))
   \<and> ((\<forall>b. Value_Value (IntValue 1) \<noteq> BoolV b)
    \<and> Exec (Function_Exec definedAtRoot 0)
         (IfElseCommand (LiteralCommand (IntValue 1)) (LiteralCommand (IntValue 1)) None)
         NewState = (Inl ConditionTypeError, NewState))
   \<and> (ToCommand (IfElseStmt (BooleanLiteralExpr True)
                    (ExpressionStmt (IntegerLiteralExpr 1))
                    (Some (ExpressionStmt (IntegerLiteralExpr 2))))
        = Inr (IfElseCommand (LiteralCommand (Value BooleanType (BoolV True)))
                 (LiteralCommand (IntValue 1)) (Some (LiteralCommand (IntValue 2))))
      \<and> Exec (Function_Exec definedAtRoot 0)
           (IfElseCommand (LiteralCommand (Value BooleanType (BoolV True)))
              (LiteralCommand (IntValue 1)) (Some (LiteralCommand (IntValue 2))))
           NewState = (Inr (Some (IntValue 1)), NewState))
   \<and> (Exec (Function_Exec definedAtRoot 0)
         (IfElseCommand (LiteralCommand (Value BooleanType (BoolV False)))
            (LiteralCommand (IntValue 1)) (Some (LiteralCommand (IntValue 2))))
         NewState = (Inr (Some (IntValue 2)), NewState))
   \<and> (ToCommand (IfElseStmt (BooleanLiteralExpr False)
                    (ExpressionStmt (IntegerLiteralExpr 1)) None)
        = Inr (IfElseCommand (LiteralCommand (Value BooleanType (BoolV False)))
                 (LiteralCommand (IntValue 1)) None)
      \<and> Exec (Function_Exec definedAtRoot 0)
           (IfElseCommand (LiteralCommand (Value BooleanType (BoolV False)))
              (LiteralCommand (IntValue 1)) None)
           NewState = (Inr None, NewState))"
  using
    IfElseCommand_branches [where call = "Function_Exec definedAtRoot 0"
      and condition = "VariableCommand ''nowhere''" and s = NewState
      and err = UndefinedVariable and ?s1.0 = NewState
      and ifBranch = "LiteralCommand (IntValue 1)" and elseBranch = None]
    IfElseCommand_branches [where call = "Function_Exec definedAtRoot 0"
      and condition = ifWithoutElse and s = NewState and ?s1.0 = NewState
      and ifBranch = "LiteralCommand (IntValue 1)" and elseBranch = None]
    IfElseCommand_branches [where call = "Function_Exec definedAtRoot 0"
      and condition = "LiteralCommand (IntValue 1)" and s = NewState
      and c = "IntValue 1" and ?s1.0 = NewState and ifBranch = "LiteralCommand (IntValue 1)"
      and elseBranch = None]
    IfElseCommand_branches [where call = "Function_Exec definedAtRoot 0"
      and condition = "LiteralCommand (Value BooleanType (BoolV True))" and s = NewState
      and c = "Value BooleanType (BoolV True)" and ?s1.0 = NewState
      and ifBranch = "LiteralCommand (IntValue 1)"
      and elseBranch = "Some (LiteralCommand (IntValue 2))"]
    IfElseCommand_branches [where call = "Function_Exec definedAtRoot 0"
      and condition = "LiteralCommand (Value BooleanType (BoolV False))" and s = NewState
      and c = "Value BooleanType (BoolV False)" and ?s1.0 = NewState
      and ifBranch = "LiteralCommand (IntValue 1)" and e = "LiteralCommand (IntValue 2)"]
  by (simp add: example_defs NewState_def NewContext_def)

text \<open>
  C8.  A VariableRef command resolves its name against the variable bindings of the
  Context chain first: when a variable is found its current Value is the result, also
  when a parameter has the same name.  Only when no variable is found is the name
  resolved against the parameter bindings; when neither resolves, the command fails with
  UndefinedVariable.  The state is left as it was.
\<close>

theorem VariableCommand_resolution:
  "(FindVariable (ctx s) name = Some a \<longrightarrow>
      Exec call (VariableCommand name) s = (Inr (Some (Variable_Value (heap s ! a))), s))
   \<and> (FindVariable (ctx s) name = None \<and> FindParameter (ctx s) name = Some param \<longrightarrow>
      Exec call (VariableCommand name) s = (Inr (Some param), s))
   \<and> (FindVariable (ctx s) name = None \<and> FindParameter (ctx s) name = None \<longrightarrow>
      Exec call (VariableCommand name) s = (Inl UndefinedVariable, s))"
  by simp

theorem VariableCommand_resolution_witness:
  "(FindVariable (ctx exampleState) ''a'' = Some 0
    \<and> FindParameter (ctx exampleState) ''a'' = Some (IntValue 7)
    \<and> Exec (Function_Exec definedAtRoot 0) (VariableCommand ''a'') exampleState
        = (Inr (Some (IntValue 1)), exampleState))
   \<and> (FindVariable (ctx exampleState) ''q'' = None
      \<and> FindParameter (ctx exampleState) ''q'' = Some (IntValue 8)
      \<and> Exec (Function_Exec definedAtRoot 0) (VariableCommand ''q'') exampleState
          = (Inr (Some (IntValue 8)), exampleState))
   \<and> (FindVariable (ctx exampleState) ''z'' = None
      \<and> FindParameter (ctx exampleState) ''z'' = None
      \<and> Exec (Function_Exec definedAtRoot 0) (VariableCommand ''z'') exampleState
          = (Inl UndefinedVariable, exampleState))"
  using
    VariableCommand_resolution [where s = exampleState and name = "''a''" and a = 0
      and call = "Function_Exec definedAtRoot 0"]
    VariableCommand_resolution [where s = exampleState and name = "''q''"
      and call = "Function_Exec definedAtRoot 0" and param = "IntValue 8"]
    VariableCommand_resolution [where s = exampleState and name = "''z''"
      and call = "Function_Exec definedAtRoot 0"]
  by (simp add: example_defs)

text \<open>
  C9.  When the value sub-Command of a DefineVar command evaluates to no value, the
  command reads the Type of the absent value and stops with the host's nil-pointer
  fault, which is none of the specified error kinds.  The same holds for an Assign
  command once its target has been found and is mutable (before that the value is not
  evaluated).  An if-expression with a false condition and no else branch is such a
  sub-Command, and so is a nested definition, whose own Variable has been created when
  the outer command faults.
\<close>

theorem absent_value_is_dereferenced:
  "(Exec call valueCmd s = (Inr None, s1) \<longrightarrow>
      Exec call (DefineVarCommand name mutable ty valueCmd) s = (Inl NilDereference, s1))
   \<and> (FindVariable (ctx s) name = Some a \<and> Variable_Mutable (heap s ! a)
        \<and> Exec call valueCmd s = (Inr None, s1) \<longrightarrow>
      Exec call (AssignmentCommand name valueCmd) s = (Inl NilDereference, s1))"
  by simp

theorem absent_value_is_dereferenced_witness:
  "(Exec (Function_Exec definedAtRoot 0) ifWithoutElse exampleState = (Inr None, exampleState)
    \<and> Exec (Function_Exec definedAtRoot 0) (DefineVarCommand ''c'' False AnyType ifWithoutElse) exampleState
        = (Inl NilDereference, exampleState))
   \<and> (Exec (Function_Exec definedAtRoot 0)
         (DefineVarCommand ''d'' False AnyType (LiteralCommand (IntValue 3))) NewState
        = (Inr None, definedState)
      \<and> Exec (Function_Exec definedAtRoot 0)
          (DefineVarCommand ''c'' False AnyType
             (DefineVarCommand ''d'' False AnyType (LiteralCommand (IntValue 3)))) NewState
        = (Inl NilDereference, definedState))
   \<and> (FindVariable (ctx exampleState) ''b'' = Some 1
      \<and> Variable_Mutable (heap exampleState ! 1)
      \<and> Exec (Function_Exec definedAtRoot 0) (AssignmentCommand ''b'' ifWithoutElse) exampleState
          = (Inl NilDereference, exampleState))"
  using
    absent_value_is_dereferenced [where call = "Function_Exec definedAtRoot 0"
      and valueCmd = ifWithoutElse and s = exampleState and ?s1.0 = exampleState
      and name = "''c''" and mutable = False and ty = AnyType]
    absent_value_is_dereferenced [where call = "Function_Exec definedAtRoot 0"
      and valueCmd = "DefineVarCommand ''d'' False AnyType (LiteralCommand (IntValue 3))"
      and s = NewState and ?s1.0 = definedState
      and name = "''c''" and mutable = False and ty = AnyType]
    absent_value_is_dereferenced [where call = "Function_Exec definedAtRoot 0"
      and valueCmd = ifWithoutElse and s = exampleState and ?s1.0 = exampleState
      and name = "''b''" and a = 1]
  by (simp add: example_defs definedState_def NewState_def NewContext_def DefineVariable_def)

text \<open>
  C10.  Evaluating a MemberAccess on its own produces a Value that holds the Function
  found in the receiver's Type and nothing of the receiver.  When an Invocation's
  invoked expression is not a MemberAccess and evaluates to a Function value, the
  Function is invoked with no receiver (the nil receiver of \<open>fun.Exec(ctx, nil, args)\<close>).
  So a member stored in a variable and called through the variable is called without
  the receiver it was taken from.
\<close>

theorem member_value_has_no_receiver:
  "(Exec call rcv s = (Inr (Some r), s1)
      \<and> map_of (Type_functions (Value_Type r)) name = Some f \<longrightarrow>
      Exec call (ContextCommand rcv name) s =
        (Inr (Some (Value (FunctionType (Some name) f) (FunV f))), s1))
   \<and> ((\<forall>rc m. Invoking \<noteq> ContextCommand rc m)
        \<and> Exec call Invoking s = (Inr (Some (Value t (FunV f))), s1) \<longrightarrow>
      Exec call (InvocationCommand Invoking args) s = call s1 f None args)"
  by (cases Invoking) auto

theorem member_value_has_no_receiver_witness:
  "(Exec (Function_Exec definedAtRoot 1) (LiteralCommand (Value memberType (IntV 5))) NewState
      = (Inr (Some (Value memberType (IntV 5))), NewState)
    \<and> map_of (Type_functions (Value_Type (Value memberType (IntV 5)))) ''f''
        = Some memberFunction
    \<and> Exec (Function_Exec definedAtRoot 1)
         (DefineVarCommand ''m'' False AnyType
            (ContextCommand (LiteralCommand (Value memberType (IntV 5))) ''f'')) NewState
        = (Inr None, storedState))
   \<and> ((\<forall>rc m. VariableCommand ''m'' \<noteq> ContextCommand rc m)
      \<and> Exec (Function_Exec definedAtRoot 1) (VariableCommand ''m'') storedState
          = (Inr (Some (Value (FunctionType (Some ''f'') memberFunction)
                          (FunV memberFunction))), storedState)
      \<and> Exec (Function_Exec definedAtRoot 1) (InvocationCommand (VariableCommand ''m'') []) storedState
          = Function_Exec definedAtRoot 1 storedState memberFunction None [])"
  using
    member_value_has_no_receiver [where call = "Function_Exec definedAtRoot 1"
      and rcv = "LiteralCommand (Value memberType (IntV 5))" and s = NewState
      and r = "Value memberType (IntV 5)" and ?s1.0 = NewState and name = "''f''"
      and f = memberFunction]
    member_value_has_no_receiver [where call = "Function_Exec definedAtRoot 1" and s = storedState
      and ?s1.0 = storedState and f = memberFunction and Invoking = "VariableCommand ''m''"
      and t = "FunctionType (Some ''f'') memberFunction" and args = "[]"]
  by (simp add: example_defs NewState_def NewContext_def DefineVariable_def FunctionType_def)


end
